theory Spec2Isabelle
  imports Main "HOL-Library.Word"
begin

section \<open>Data model (metapb, errorpb, kvrpcpb as read by pkg/restore/split_client.go)\<close>

text \<open>
  Go's \<open>uint64\<close> is a 64-bit word, \<open>[]byte\<close> a list of characters. A pointer field that
  the code tests against \<open>nil\<close> is an \<open>option\<close>. Only the fields that split_client.go reads
  are kept.
\<close>

type_synonym u64 = "64 word"
type_synonym bytes = string

text \<open>metapb.Peer: read through \<open>.Id\<close> and \<open>GetStoreId()\<close>.\<close>

record peer =
  Peer_Id :: u64
  Peer_StoreId :: u64

text \<open>metapb.RegionEpoch, the (conf-version, version) pair.\<close>

record region_epoch =
  ConfVer :: u64
  Version :: u64

text \<open>metapb.Region. \<open>Peers\<close> is a slice, so order matters (\<open>Peers[0]\<close>).\<close>

record region =
  Region_Id :: u64
  Region_StartKey :: bytes
  Region_EndKey :: bytes
  Region_RegionEpoch :: "region_epoch option"
  Region_Peers :: "peer list"

text \<open>
  RegionInfo: a region and its believed leader. \<open>Leader\<close> is a pointer that may be nil;
  \<open>Region\<close> is taken to be non-nil, as every constructor in this file builds it from a
  non-nil descriptor.
\<close>

record region_info =
  Region :: region
  Leader :: "peer option"

text \<open>metapb.Store: \<open>GetAddress()\<close> is the only field read.\<close>

record store =
  Store_Id :: u64
  Store_Address :: string

text \<open>pd.Region, what the metadata-service client returns for a region lookup.\<close>

record pd_region =
  Meta :: region
  pd_Leader :: "peer option"

text \<open>errorpb.NotLeader: the region id and, optionally, the new leader.\<close>

record not_leader =
  NotLeader_RegionId :: u64
  NotLeader_Leader :: "peer option"

text \<open>
  errorpb.Error is a message with one optional field per kind of error, not a tagged union:
  several may be set at once and the code looks at them in a fixed order. \<open>NotLeader\<close>
  carries data; for the others only presence is read, so they are booleans
  (\<open>True\<close> = the pointer is not nil).
\<close>

record region_error =
  Message :: string
  NotLeader :: "not_leader option"
  RegionNotFound :: bool
  KeyNotInRegion :: bool
  EpochNotMatch :: bool
  ServerIsBusy :: bool
  StaleCommand :: bool
  StoreNotMatch :: bool
  RaftEntryTooLarge :: bool

text \<open>kvrpcpb.SplitRegionResponse. \<open>Left\<close> and \<open>Right\<close> are the deprecated fields.\<close>

record split_response =
  RegionError :: "region_error option"
  Left :: "region option"
  Right :: "region option"
  Regions :: "region list"

text \<open>
  kvrpcpb.SplitRegionRequest with its kvrpcpb.Context flattened: the context's region id,
  epoch and peer, then the single split key (legacy call) and the split-key list (batch call).
\<close>

record split_request =
  req_RegionId :: u64
  req_RegionEpoch :: "region_epoch option"
  req_Peer :: "peer option"
  SplitKey :: bytes
  SplitKeys :: "bytes list"

section \<open>Errors and results\<close>

text \<open>
  The error values the file builds. \<open>ErrRestoreNoPeer (Some id)\<close> is the annotation
  "region[id] doesn't have any peer" of sendSplitRegionRequest, \<open>ErrRestoreNoPeer None\<close> the
  "region does not have peer" of SplitRegion; \<open>ErrRestoreSplitFailed (Some e)\<close> is annotated
  with the region error, \<open>ErrRestoreSplitFailed None\<close> is "new region is nil".
  \<open>ErrExternal\<close> is any error handed back by the PD client or by gRPC.
\<close>

datatype err =
    ErrRestoreNoPeer "u64 option"
  | ErrRestoreSplitFailed "region_error option"
  | ErrKVEpochNotMatch
  | ErrExternal string

text \<open>
  A multierr value is the list of the errors appended so far; \<open>nil\<close> is the empty list and
  \<open>multierr.Append\<close> of a non-nil error is list append. \<open>errors.Trace\<close> only adds a stack
  trace and is the identity here. A Go function of this file either returns a value,
  returns an error, or panics on a nil dereference.
\<close>

datatype 'a result = Ok 'a | Error "err list" | Panic

definition multierr_Append :: "err list \<Rightarrow> err \<Rightarrow> err list" where
  "multierr_Append splitErrors e = splitErrors @ [e]"

section \<open>The client, its environment and the trace of outgoing calls\<close>

type_synonym tls_config = string

datatype dial_option = WithInsecure | WithTransportCredentials tls_config

text \<open>
  Every call that leaves the process is appended to a trace: a store fetch from PD, a gRPC
  dial, a split call on a connection (target address, dial option, request) and a region
  lookup by id at PD. The split call of the batch path goes through
  splitRegionWithFailpoint; its event is recorded on entry, so there is one event per
  attempt that got as far as the call, also when a failpoint answers in the server's place.
\<close>

datatype event =
    PD_GetStore u64
  | GRPC_Dial string dial_option
  | TiKV_SplitRegion string dial_option split_request
  | PD_GetRegionByID u64

text \<open>
  The outside world has a state \<open>'w\<close> that each call may change, so that consecutive calls
  may answer differently. The two failpoints of splitRegionWithFailpoint are part of the
  environment: \<open>None\<close>/\<open>False\<close> is a build or run without the failpoint.
\<close>

record 'w env =
  pd_GetStore :: "'w \<Rightarrow> u64 \<Rightarrow> (err + store option) \<times> 'w"
  pd_GetRegionByID :: "'w \<Rightarrow> u64 \<Rightarrow> (err + pd_region option) \<times> 'w"
  grpc_Dial :: "'w \<Rightarrow> string \<Rightarrow> dial_option \<Rightarrow> err option \<times> 'w"
  tikv_SplitRegion :: "'w \<Rightarrow> string \<Rightarrow> split_request \<Rightarrow> (err + split_response) \<times> 'w"
  fp_not_leader_error :: "bool option"
  fp_somewhat_retryable_error :: bool

text \<open>pdClient: the store cache and the TLS configuration, with the world and the trace.\<close>

record 'w pdClient =
  storeCache :: "u64 \<rightharpoonup> store option"
  tlsConf :: "tls_config option"
  world :: 'w
  trace :: "event list"

definition splitRegionMaxRetryTime :: nat where
  "splitRegionMaxRetryTime = 4"

section \<open>Nil-safe getters\<close>

definition GetAddress :: "store option \<Rightarrow> string" where
  "GetAddress s = (case s of None \<Rightarrow> [] | Some st \<Rightarrow> Store_Address st)"

definition GetConfVer :: "region_epoch option \<Rightarrow> u64" where
  "GetConfVer e = (case e of None \<Rightarrow> 0 | Some x \<Rightarrow> ConfVer x)"

definition GetVersion :: "region_epoch option \<Rightarrow> u64" where
  "GetVersion e = (case e of None \<Rightarrow> 0 | Some x \<Rightarrow> Version x)"

section \<open>GetStore (lines 92-105)\<close>

text \<open>
  A cache hit returns the cached pointer and touches nothing. A miss fetches from PD; an
  error is returned and nothing is cached; otherwise the answer (which may be a nil store
  with a nil error) is cached and returned. The mutex has no sequential effect.
\<close>

definition GetStore :: "'w env \<Rightarrow> 'w pdClient \<Rightarrow> u64 \<Rightarrow> (err + store option) \<times> 'w pdClient" where
  "GetStore e c storeID =
     (case storeCache c storeID of
        Some st \<Rightarrow> (Inr st, c)
      | None \<Rightarrow>
          (case pd_GetStore e (world c) storeID of
             (Inl er, w') \<Rightarrow>
               (Inl er, c\<lparr>world := w', trace := trace c @ [PD_GetStore storeID]\<rparr>)
           | (Inr st, w') \<Rightarrow>
               (Inr st, c\<lparr>storeCache := (storeCache c)(storeID \<mapsto> st),
                           world := w', trace := trace c @ [PD_GetStore storeID]\<rparr>)))"

section \<open>GetRegionByID (lines 121-133)\<close>

definition GetRegionByID ::
  "'w env \<Rightarrow> 'w pdClient \<Rightarrow> u64 \<Rightarrow> (err + region_info option) \<times> 'w pdClient" where
  "GetRegionByID e c regionID =
     (case pd_GetRegionByID e (world c) regionID of
        (Inl er, w') \<Rightarrow>
          (Inl er, c\<lparr>world := w', trace := trace c @ [PD_GetRegionByID regionID]\<rparr>)
      | (Inr None, w') \<Rightarrow>
          (Inr None, c\<lparr>world := w', trace := trace c @ [PD_GetRegionByID regionID]\<rparr>)
      | (Inr (Some r), w') \<Rightarrow>
          (Inr (Some \<lparr>Region = Meta r, Leader = pd_Leader r\<rparr>),
           c\<lparr>world := w', trace := trace c @ [PD_GetRegionByID regionID]\<rparr>))"

section \<open>Connections and the split call\<close>

text \<open>grpc.Dial: returns a connection or an error; the connection is its target and option.\<close>

definition Dial :: "'w env \<Rightarrow> 'w pdClient \<Rightarrow> string \<Rightarrow> dial_option \<Rightarrow> err option \<times> 'w pdClient" where
  "Dial e c target opt =
     (case grpc_Dial e (world c) target opt of
        (r, w') \<Rightarrow> (r, c\<lparr>world := w', trace := trace c @ [GRPC_Dial target opt]\<rparr>))"

text \<open>
  The peer of a leader on the same store (lines 191-200 and 341-351, the same loop twice):
  nil when the region info has no leader, else the first peer of the region whose store id
  is the leader's.
\<close>

definition leaderOnSameStore :: "region_info \<Rightarrow> region \<Rightarrow> peer option" where
  "leaderOnSameStore regionInfo r =
     (case Leader regionInfo of
        None \<Rightarrow> None
      | Some l \<Rightarrow> find (\<lambda>p. Peer_StoreId p = Peer_StoreId l) (Region_Peers r))"

section \<open>SplitRegion, the single-key call (lines 135-205)\<close>

text \<open>
  Lines 136-144: the peer to address. Here the leader is taken whenever it is not nil;
  \<open>None\<close> is the case that returns the no-peer error.
\<close>

definition singlePeer :: "region_info \<Rightarrow> peer option" where
  "singlePeer regionInfo =
     (case Leader regionInfo of
        Some l \<Rightarrow> Some l
      | None \<Rightarrow> (case Region_Peers (Region regionInfo) of [] \<Rightarrow> None | p # _ \<Rightarrow> Some p))"

text \<open>
  Lines 136-167: choose the peer, resolve its store, dial (always without TLS) and send the
  request with the single split key. Each failure returns its error.
\<close>

definition issueSingle ::
  "'w env \<Rightarrow> 'w pdClient \<Rightarrow> region_info \<Rightarrow> bytes \<Rightarrow> (err + split_response) \<times> 'w pdClient" where
  "issueSingle e c regionInfo key =
     (case singlePeer regionInfo of
        None \<Rightarrow> (Inl (ErrRestoreNoPeer None), c)
      | Some p \<Rightarrow>
          (case GetStore e c (Peer_StoreId p) of
             (Inl er, c1) \<Rightarrow> (Inl er, c1)
           | (Inr sto, c1) \<Rightarrow>
               (case Dial e c1 (GetAddress sto) WithInsecure of
                  (Some er, c2) \<Rightarrow> (Inl er, c2)
                | (None, c2) \<Rightarrow>
                    (let req = \<lparr>req_RegionId = Region_Id (Region regionInfo),
                                req_RegionEpoch = Region_RegionEpoch (Region regionInfo),
                                req_Peer = Some p, SplitKey = key, SplitKeys = []\<rparr>;
                         c3 = c2\<lparr>trace := trace c2 @
                                   [TiKV_SplitRegion (GetAddress sto) WithInsecure req]\<rparr>
                     in case tikv_SplitRegion e (world c3) (GetAddress sto) req of
                          (r, w') \<Rightarrow> (r, c3\<lparr>world := w'\<rparr>)))))"

text \<open>
  Lines 176-187: the region to return. The deprecated \<open>Left\<close> field when it is set,
  otherwise the first region of the list whose start key is the pre-split start key.
\<close>

definition pickNewRegion :: "region_info \<Rightarrow> split_response \<Rightarrow> region option" where
  "pickNewRegion regionInfo resp =
     (case Left resp of
        Some l \<Rightarrow> Some l
      | None \<Rightarrow>
          find (\<lambda>r. Region_StartKey r = Region_StartKey (Region regionInfo)) (Regions resp))"

definition SplitRegion ::
  "'w env \<Rightarrow> 'w pdClient \<Rightarrow> region_info \<Rightarrow> bytes \<Rightarrow> region_info result \<times> 'w pdClient" where
  "SplitRegion e c regionInfo key =
     (case issueSingle e c regionInfo key of
        (Inl er, c') \<Rightarrow> (Error [er], c')
      | (Inr resp, c') \<Rightarrow>
          (case RegionError resp of
             Some re \<Rightarrow> (Error [ErrRestoreSplitFailed (Some re)], c')
           | None \<Rightarrow>
               (case pickNewRegion regionInfo resp of
                  None \<Rightarrow> (Error [ErrRestoreSplitFailed None], c')
                | Some newRegion \<Rightarrow>
                    (Ok \<lparr>Region = newRegion, Leader = leaderOnSameStore regionInfo newRegion\<rparr>,
                     c'))))"

section \<open>splitRegionWithFailpoint (lines 207-244)\<close>

definition noRegionError :: region_error where
  "noRegionError =
     \<lparr>Message = [], NotLeader = None, RegionNotFound = False, KeyNotInRegion = False,
      EpochNotMatch = False, ServerIsBusy = False, StaleCommand = False,
      StoreNotMatch = False, RaftEntryTooLarge = False\<rparr>"

definition errorResponse :: "region_error \<Rightarrow> split_response" where
  "errorResponse re = \<lparr>RegionError = Some re, Left = None, Right = None, Regions = []\<rparr>"

definition splitRegionWithFailpoint ::
  "'w env \<Rightarrow> 'w pdClient \<Rightarrow> region_info \<Rightarrow> peer \<Rightarrow> string \<Rightarrow> dial_option \<Rightarrow> bytes list
     \<Rightarrow> (err + split_response) \<times> 'w pdClient" where
  "splitRegionWithFailpoint e c regionInfo p target opt keys =
     (let req = \<lparr>req_RegionId = Region_Id (Region regionInfo),
                 req_RegionEpoch = Region_RegionEpoch (Region regionInfo),
                 req_Peer = Some p, SplitKey = [], SplitKeys = keys\<rparr>;
          c1 = c\<lparr>trace := trace c @ [TiKV_SplitRegion target opt req]\<rparr>
      in case fp_not_leader_error e of
           Some injectNewLeader \<Rightarrow>
             (Inr (errorResponse (noRegionError\<lparr>NotLeader :=
                     Some \<lparr>NotLeader_RegionId = Region_Id (Region regionInfo),
                           NotLeader_Leader = (if injectNewLeader then Leader regionInfo else None)\<rparr>\<rparr>)),
              c1)
         | None \<Rightarrow>
             if fp_somewhat_retryable_error e
             then (Inr (errorResponse (noRegionError\<lparr>ServerIsBusy := True\<rparr>)), c1)
             else (case tikv_SplitRegion e (world c1) target req of
                     (r, w') \<Rightarrow> (r, c1\<lparr>world := w'\<rparr>)))"

section \<open>checkRegionEpoch\<close>

text \<open>
  Modelled from the spec: checkRegionEpoch is called at line 296 of split_client.go but is
  defined in a file of the package that is not among the sources. The specification (4.2)
  says of it: "if the re-resolved region's epoch does not dominate-or-equal the original's,
  fail permanently with an epoch-mismatch error". An epoch is a (conf-version, version)
  pair; the new one dominates or equals the old one when neither component is smaller.
\<close>

definition checkRegionEpoch :: "region_info \<Rightarrow> region_info \<Rightarrow> bool" where
  "checkRegionEpoch new old =
     (GetConfVer (Region_RegionEpoch (Region old)) \<le> GetConfVer (Region_RegionEpoch (Region new)) \<and>
      GetVersion (Region_RegionEpoch (Region old)) \<le> GetVersion (Region_RegionEpoch (Region new)))"

section \<open>sendSplitRegionRequest (lines 246-327)\<close>

text \<open>
  The local variable \<open>regionInfo\<close> starts as the caller's pointer. Line 290 writes the
  leader through whatever it points to; line 300 re-points it to a fresh lookup. So the
  state of the loop holds the object behind the caller's pointer, and \<open>rebound\<close>, which is
  \<open>None\<close> while the variable still points to the caller's object and \<open>Some r\<close> once it has
  been re-pointed to the fresh object \<open>r\<close>.
\<close>

record 'w loop_state =
  cl :: "'w pdClient"
  callerRegionInfo :: region_info
  rebound :: "region_info option"
  splitErrors :: "err list"

definition working :: "'w loop_state \<Rightarrow> region_info" where
  "working st = (case rebound st of None \<Rightarrow> callerRegionInfo st | Some r \<Rightarrow> r)"

text \<open>Line 290, \<open>regionInfo.Leader = leader\<close>: a write through the pointer.\<close>

definition setLeader :: "'w loop_state \<Rightarrow> peer \<Rightarrow> 'w loop_state" where
  "setLeader st l =
     (case rebound st of
        None \<Rightarrow> st\<lparr>callerRegionInfo := (callerRegionInfo st)\<lparr>Leader := Some l\<rparr>\<rparr>
      | Some r \<Rightarrow> st\<lparr>rebound := Some (r\<lparr>Leader := Some l\<rparr>)\<rparr>)"

text \<open>
  Lines 251-262: the peer to address. \<open>None\<close> is the case that returns the no-peer error.
\<close>

definition selectPeer :: "region_info \<Rightarrow> peer option" where
  "selectPeer regionInfo =
     (case Leader regionInfo of
        Some l \<Rightarrow>
          if Peer_Id l \<noteq> 0 then Some l
          else (case Region_Peers (Region regionInfo) of [] \<Rightarrow> None | p # _ \<Rightarrow> Some p)
      | None \<Rightarrow> (case Region_Peers (Region regionInfo) of [] \<Rightarrow> None | p # _ \<Rightarrow> Some p))"

text \<open>One pass of the loop body ends with \<open>continue\<close> (\<open>Retry\<close>) or with a \<open>return\<close> (\<open>Stop\<close>).\<close>

datatype 'w step = Retry "'w loop_state" | Stop "split_response result" "'w loop_state"

text \<open>
  Lines 282-322, the response carries a region error. The failure is appended first.
  NotLeader is looked at before anything else. Without an embedded leader the region is
  looked up by the id the error carries; a nil lookup result is dereferenced by the epoch
  check, and line 299 reads \<open>newRegionInfo.Leader.Id\<close> for the log before the variable is
  re-pointed, which panics when the fresh region has no leader.
\<close>

definition onRegionError :: "'w env \<Rightarrow> 'w loop_state \<Rightarrow> region_error \<Rightarrow> 'w step" where
  "onRegionError e st re =
     (let st1 = st\<lparr>splitErrors := multierr_Append (splitErrors st) (ErrRestoreSplitFailed (Some re))\<rparr>
      in case NotLeader re of
           Some nl \<Rightarrow>
             (case NotLeader_Leader nl of
                Some leader \<Rightarrow> Retry (setLeader st1 leader)
              | None \<Rightarrow>
                  (case GetRegionByID e (cl st1) (NotLeader_RegionId nl) of
                     (Inl findLeaderErr, c') \<Rightarrow>
                       Stop (Error (multierr_Append (splitErrors st1) findLeaderErr)) (st1\<lparr>cl := c'\<rparr>)
                   | (Inr None, c') \<Rightarrow> Stop Panic (st1\<lparr>cl := c'\<rparr>)
                   | (Inr (Some newRegionInfo), c') \<Rightarrow>
                       if \<not> checkRegionEpoch newRegionInfo (working st1)
                       then Stop (Error (multierr_Append (splitErrors st1) ErrKVEpochNotMatch))
                              (st1\<lparr>cl := c'\<rparr>)
                       else (case Leader newRegionInfo of
                               None \<Rightarrow> Stop Panic (st1\<lparr>cl := c'\<rparr>)
                             | Some _ \<Rightarrow> Retry (st1\<lparr>cl := c', rebound := Some newRegionInfo\<rparr>))))
         | None \<Rightarrow>
             if ServerIsBusy re \<or> StaleCommand re then Retry st1
             else Stop (Error (splitErrors st1)) st1)"

text \<open>
  Lines 251-281, the first half of the loop body: choose the peer, resolve its store, dial,
  and make the split call. Each failure there returns the accumulated errors with the new
  one appended, so the half is a function that yields the new error or the response. The
  deferred \<open>conn.Close()\<close> calls run when the function returns and change nothing of what
  it returns; they are not recorded.
\<close>

definition issue :: "'w env \<Rightarrow> bytes list \<Rightarrow> 'w loop_state \<Rightarrow> (err + split_response) \<times> 'w pdClient" where
  "issue e keys st =
     (let regionInfo = working st
      in case selectPeer regionInfo of
           None \<Rightarrow> (Inl (ErrRestoreNoPeer (Some (Region_Id (Region regionInfo)))), cl st)
         | Some p \<Rightarrow>
             (case GetStore e (cl st) (Peer_StoreId p) of
                (Inl er, c1) \<Rightarrow> (Inl er, c1)
              | (Inr sto, c1) \<Rightarrow>
                  (let opt = (case tlsConf c1 of
                                None \<Rightarrow> WithInsecure
                              | Some t \<Rightarrow> WithTransportCredentials t)
                   in case Dial e c1 (GetAddress sto) opt of
                        (Some er, c2) \<Rightarrow> (Inl er, c2)
                      | (None, c2) \<Rightarrow>
                          splitRegionWithFailpoint e c2 regionInfo p (GetAddress sto) opt keys)))"

text \<open>Lines 251-324, the loop body.\<close>

definition attempt :: "'w env \<Rightarrow> bytes list \<Rightarrow> 'w loop_state \<Rightarrow> 'w step" where
  "attempt e keys st =
     (case issue e keys st of
        (Inl er, c') \<Rightarrow> Stop (Error (multierr_Append (splitErrors st) er)) (st\<lparr>cl := c'\<rparr>)
      | (Inr resp, c') \<Rightarrow>
          (case RegionError resp of
             None \<Rightarrow> Stop (Ok resp) (st\<lparr>cl := c'\<rparr>)
           | Some re \<Rightarrow> onRegionError e (st\<lparr>cl := c'\<rparr>) re))"

text \<open>
  The loop \<open>for i := 0; i < splitRegionMaxRetryTime; i++\<close>; when it runs out, line 326
  returns the accumulated errors.
\<close>

function sendSplitRegionRequest_loop ::
  "'w env \<Rightarrow> bytes list \<Rightarrow> nat \<Rightarrow> 'w loop_state \<Rightarrow> split_response result \<times> 'w loop_state" where
  "sendSplitRegionRequest_loop e keys i st =
     (if i < splitRegionMaxRetryTime
      then (case attempt e keys st of
              Retry st' \<Rightarrow> sendSplitRegionRequest_loop e keys (i + 1) st'
            | Stop r st' \<Rightarrow> (r, st'))
      else (Error (splitErrors st), st))"
  by pat_completeness auto
termination
  by (relation "measure (\<lambda>(e, keys, i, st). splitRegionMaxRetryTime - i)") auto

declare sendSplitRegionRequest_loop.simps [simp del]

text \<open>
  The call returns the response or the error, and leaves behind the client and the
  caller's region info, whose leader it may have overwritten.
\<close>

definition sendSplitRegionRequest ::
  "'w env \<Rightarrow> 'w pdClient \<Rightarrow> region_info \<Rightarrow> bytes list
     \<Rightarrow> split_response result \<times> 'w pdClient \<times> region_info" where
  "sendSplitRegionRequest e c regionInfo keys =
     (case sendSplitRegionRequest_loop e keys 0
             \<lparr>cl = c, callerRegionInfo = regionInfo, rebound = None, splitErrors = []\<rparr> of
        (r, st) \<Rightarrow> (r, cl st, callerRegionInfo st))"

section \<open>BatchSplitRegionsWithOrigin and BatchSplitRegions (lines 329-373)\<close>

text \<open>
  Lines 340-364: the loop over the regions of the response, with the origin found so far
  and the new regions collected so far.
\<close>

fun partitionRegions ::
  "region_info \<Rightarrow> region list \<Rightarrow> region_info option \<Rightarrow> region_info list
     \<Rightarrow> region_info option \<times> region_info list" where
  "partitionRegions regionInfo [] originRegion newRegionInfos = (originRegion, newRegionInfos)"
| "partitionRegions regionInfo (r # rs) originRegion newRegionInfos =
     (let leader = leaderOnSameStore regionInfo r
      in if Region_Id r = Region_Id (Region regionInfo)
         then partitionRegions regionInfo rs (Some \<lparr>Region = r, Leader = leader\<rparr>) newRegionInfos
         else partitionRegions regionInfo rs originRegion
                (newRegionInfos @ [\<lparr>Region = r, Leader = leader\<rparr>]))"

definition BatchSplitRegionsWithOrigin ::
  "'w env \<Rightarrow> 'w pdClient \<Rightarrow> region_info \<Rightarrow> bytes list
     \<Rightarrow> (region_info option \<times> region_info list) result \<times> 'w pdClient \<times> region_info" where
  "BatchSplitRegionsWithOrigin e c regionInfo keys =
     (case sendSplitRegionRequest e c regionInfo keys of
        (Error er, c', regionInfo') \<Rightarrow> (Error er, c', regionInfo')
      | (Panic, c', regionInfo') \<Rightarrow> (Panic, c', regionInfo')
      | (Ok resp, c', regionInfo') \<Rightarrow>
          (Ok (partitionRegions regionInfo' (Regions resp) None []), c', regionInfo'))"

definition BatchSplitRegions ::
  "'w env \<Rightarrow> 'w pdClient \<Rightarrow> region_info \<Rightarrow> bytes list
     \<Rightarrow> region_info list result \<times> 'w pdClient \<times> region_info" where
  "BatchSplitRegions e c regionInfo keys =
     (case BatchSplitRegionsWithOrigin e c regionInfo keys of
        (Ok (_, newRegions), c', regionInfo') \<Rightarrow> (Ok newRegions, c', regionInfo')
      | (Error er, c', regionInfo') \<Rightarrow> (Error er, c', regionInfo')
      | (Panic, c', regionInfo') \<Rightarrow> (Panic, c', regionInfo'))"

section \<open>Reading the trace\<close>

text \<open>The split calls of a trace, in order: target address and request.\<close>

fun splitCalls :: "event list \<Rightarrow> (string \<times> split_request) list" where
  "splitCalls [] = []"
| "splitCalls (TiKV_SplitRegion target opt req # evs) = (target, req) # splitCalls evs"
| "splitCalls (PD_GetStore v # evs) = splitCalls evs"
| "splitCalls (GRPC_Dial v va # evs) = splitCalls evs"
| "splitCalls (PD_GetRegionByID v # evs) = splitCalls evs"

text \<open>The region lookups of a trace, in order.\<close>

fun regionLookups :: "event list \<Rightarrow> u64 list" where
  "regionLookups [] = []"
| "regionLookups (PD_GetRegionByID regionID # evs) = regionID # regionLookups evs"
| "regionLookups (PD_GetStore v # evs) = regionLookups evs"
| "regionLookups (GRPC_Dial v va # evs) = regionLookups evs"
| "regionLookups (TiKV_SplitRegion v va vb # evs) = regionLookups evs"

text \<open>The store fetches of a trace, in order.\<close>

fun storeFetches :: "event list \<Rightarrow> u64 list" where
  "storeFetches [] = []"
| "storeFetches (PD_GetStore storeID # evs) = storeID # storeFetches evs"
| "storeFetches (PD_GetRegionByID v # evs) = storeFetches evs"
| "storeFetches (GRPC_Dial v va # evs) = storeFetches evs"
| "storeFetches (TiKV_SplitRegion v va vb # evs) = storeFetches evs"

section \<open>The lifetime of a client\<close>

text \<open>
  The states a client goes through: any sequence of the operations above, each started in
  the state the previous one left.
\<close>

inductive lifetime :: "'w env \<Rightarrow> 'w pdClient \<Rightarrow> 'w pdClient \<Rightarrow> bool" for e :: "'w env" where
  lifetime_start: "lifetime e c c"
| lifetime_GetStore:
    "lifetime e c c1 \<Longrightarrow> GetStore e c1 storeID = (ra, c2) \<Longrightarrow> lifetime e c c2"
| lifetime_GetRegionByID:
    "lifetime e c c1 \<Longrightarrow> GetRegionByID e c1 regionID = (rb, c2) \<Longrightarrow> lifetime e c c2"
| lifetime_SplitRegion:
    "lifetime e c c1 \<Longrightarrow> SplitRegion e c1 regionInfo key = (rc, c2) \<Longrightarrow> lifetime e c c2"
| lifetime_BatchSplitRegionsWithOrigin:
    "lifetime e c c1 \<Longrightarrow> BatchSplitRegionsWithOrigin e c1 regionInfo keys = (rd, c2, regionInfo')
       \<Longrightarrow> lifetime e c c2"
| lifetime_BatchSplitRegions:
    "lifetime e c c1 \<Longrightarrow> BatchSplitRegions e c1 regionInfo keys = (re, c2, regionInfo')
       \<Longrightarrow> lifetime e c c2"

section \<open>Auxiliary notions used in the statements\<close>

text \<open>The state a pass of the loop body leaves, whichever way it ends.\<close>

definition stateOf :: "'w step \<Rightarrow> 'w loop_state" where
  "stateOf s = (case s of Retry st \<Rightarrow> st | Stop r st \<Rightarrow> st)"

text \<open>The request that splitRegionWithFailpoint builds for a region info, a peer and keys.\<close>

definition batchRequest :: "region_info \<Rightarrow> peer \<Rightarrow> bytes list \<Rightarrow> split_request" where
  "batchRequest regionInfo p keys =
     \<lparr>req_RegionId = Region_Id (Region regionInfo),
      req_RegionEpoch = Region_RegionEpoch (Region regionInfo),
      req_Peer = Some p, SplitKey = [], SplitKeys = keys\<rparr>"








text \<open>
  What "discarding only the origin region" means for the result of
  BatchSplitRegionsWithOrigin: the new regions on success, the same error or panic otherwise.
\<close>

definition discardOrigin :: "(region_info option \<times> region_info list) result \<Rightarrow> region_info list result" where
  "discardOrigin r =
     (case r of Ok x \<Rightarrow> Ok (snd x) | Error er \<Rightarrow> Error er | Panic \<Rightarrow> Panic)"

text \<open>A region of a response as it is returned: with the leader computed for it.\<close>

definition withLeader :: "region_info \<Rightarrow> region \<Rightarrow> region_info" where
  "withLeader regionInfo r = \<lparr>Region = r, Leader = leaderOnSameStore regionInfo r\<rparr>"



text \<open>
  What a list of failures does to the leader of the caller's region info. \<open>answerOf\<close> reads
  the NotLeader error of a failure. \<open>leaderAfter\<close> follows the failures in order: the embedded
  leader of a NotLeader error replaces the leader (line 290 writes it through the caller's
  pointer); from the first NotLeader error without a leader on, nothing replaces it any more
  (line 300 has re-pointed the local variable, so later writes go elsewhere). \<open>reresolved\<close>
  says that the list has a NotLeader error without a leader. \<open>leaderSeenByCaller\<close> is the
  leader so obtained from the leader the caller passed and the failures of the call.
\<close>

fun answerOf :: "err \<Rightarrow> not_leader option" where
  "answerOf (ErrRestoreSplitFailed (Some re)) = NotLeader re"
| "answerOf er = None"


definition reresolved :: "err list \<Rightarrow> bool" where
  "reresolved es = (\<exists>x\<in>set es. \<exists>nl. answerOf x = Some nl \<and> NotLeader_Leader nl = None)"




section \<open>Concrete scenarios\<close>

text \<open>
  A scripted world: the storage node answers the split calls from a list, PD answers the
  region lookups from another; when a list is used up the call fails. Every store resolves
  and every dial succeeds.
\<close>

record script =
  answers :: "(err + split_response) list"
  lookups :: "(err + pd_region option) list"

definition storeAt :: "u64 \<Rightarrow> store" where
  "storeAt storeID =
     \<lparr>Store_Id = storeID, Store_Address = (if storeID = 1 then ''tikv-1'' else ''tikv-n'')\<rparr>"

definition scripted :: "script env" where
  "scripted =
     \<lparr>pd_GetStore = (\<lambda>w storeID. (Inr (Some (storeAt storeID)), w)),
      pd_GetRegionByID = (\<lambda>w regionID.
         case lookups w of
           [] \<Rightarrow> (Inl (ErrExternal ''pd: unavailable''), w)
         | x # xs \<Rightarrow> (x, w\<lparr>lookups := xs\<rparr>)),
      grpc_Dial = (\<lambda>w target opt. (None, w)),
      tikv_SplitRegion = (\<lambda>w target req.
         case answers w of
           [] \<Rightarrow> (Inl (ErrExternal ''rpc: unavailable''), w)
         | x # xs \<Rightarrow> (x, w\<lparr>answers := xs\<rparr>)),
      fp_not_leader_error = None,
      fp_somewhat_retryable_error = False\<rparr>"

text \<open>NewSplitClient (lines 84-90): an empty cache; no TLS here.\<close>

definition newClient :: "'w \<Rightarrow> 'w pdClient" where
  "newClient w = \<lparr>storeCache = Map.empty, tlsConf = None, world = w, trace = []\<rparr>"

text \<open>Region 7 = [a, z) with two peers, on stores 1 and 2; the peer on store 1 leads.\<close>

definition peerA :: peer where
  "peerA = \<lparr>Peer_Id = 11, Peer_StoreId = 1\<rparr>"

definition peerB :: peer where
  "peerB = \<lparr>Peer_Id = 12, Peer_StoreId = 2\<rparr>"

definition regionR :: region where
  "regionR =
     \<lparr>Region_Id = 7, Region_StartKey = ''a'', Region_EndKey = ''z'',
      Region_RegionEpoch = Some \<lparr>ConfVer = 5, Version = 9\<rparr>, Region_Peers = [peerA, peerB]\<rparr>"

definition infoR :: region_info where
  "infoR = \<lparr>Region = regionR, Leader = Some peerA\<rparr>"

text \<open>
  A storage node that is always busy, and one that answers NotLeader without a leader to
  every other call and busy to the rest. The world counts the calls made to the node. PD
  resolves every store and answers every region lookup with region 7, led by the peer on
  store 2.
\<close>

definition alwaysBusy :: "nat env" where
  "alwaysBusy =
     \<lparr>pd_GetStore = (\<lambda>w storeID. (Inr (Some (storeAt storeID)), w)),
      pd_GetRegionByID = (\<lambda>w regionID. (Inr (Some \<lparr>Meta = regionR, pd_Leader = Some peerB\<rparr>), w)),
      grpc_Dial = (\<lambda>w target opt. (None, w)),
      tikv_SplitRegion = (\<lambda>w target req.
         (Inr (errorResponse (noRegionError\<lparr>ServerIsBusy := True\<rparr>)), Suc w)),
      fp_not_leader_error = None,
      fp_somewhat_retryable_error = False\<rparr>"

definition flapping :: "nat env" where
  "flapping =
     \<lparr>pd_GetStore = (\<lambda>w storeID. (Inr (Some (storeAt storeID)), w)),
      pd_GetRegionByID = (\<lambda>w regionID. (Inr (Some \<lparr>Meta = regionR, pd_Leader = Some peerB\<rparr>), w)),
      grpc_Dial = (\<lambda>w target opt. (None, w)),
      tikv_SplitRegion = (\<lambda>w target req.
         (Inr (errorResponse
                 (if even w
                  then noRegionError\<lparr>NotLeader := Some \<lparr>NotLeader_RegionId = 7, NotLeader_Leader = None\<rparr>\<rparr>
                  else noRegionError\<lparr>ServerIsBusy := True\<rparr>)), Suc w)),
      fp_not_leader_error = None,
      fp_somewhat_retryable_error = False\<rparr>"

text \<open>The two halves of region 7 after a split at m: [a, m) is new (id 8), [m, z) keeps id 7.\<close>

definition regionLeft :: region where
  "regionLeft =
     \<lparr>Region_Id = 8, Region_StartKey = ''a'', Region_EndKey = ''m'',
      Region_RegionEpoch = Some \<lparr>ConfVer = 5, Version = 10\<rparr>,
      Region_Peers = [\<lparr>Peer_Id = 21, Peer_StoreId = 1\<rparr>, \<lparr>Peer_Id = 22, Peer_StoreId = 2\<rparr>]\<rparr>"

definition regionRight :: region where
  "regionRight =
     \<lparr>Region_Id = 7, Region_StartKey = ''m'', Region_EndKey = ''z'',
      Region_RegionEpoch = Some \<lparr>ConfVer = 5, Version = 10\<rparr>, Region_Peers = [peerA, peerB]\<rparr>"

definition splitDone :: split_response where
  "splitDone = \<lparr>RegionError = None, Left = None, Right = None, Regions = [regionLeft, regionRight]\<rparr>"

text \<open>Region errors: NotLeader without and with an embedded leader, busy, region-not-found.\<close>

definition notLeaderNoHint :: region_error where
  "notLeaderNoHint =
     noRegionError\<lparr>NotLeader := Some \<lparr>NotLeader_RegionId = 7, NotLeader_Leader = None\<rparr>\<rparr>"

definition notLeaderHint :: "peer \<Rightarrow> region_error" where
  "notLeaderHint l =
     noRegionError\<lparr>NotLeader := Some \<lparr>NotLeader_RegionId = 7, NotLeader_Leader = Some l\<rparr>\<rparr>"

definition serverIsBusy :: region_error where
  "serverIsBusy = noRegionError\<lparr>ServerIsBusy := True\<rparr>"

definition regionNotFound :: region_error where
  "regionNotFound = noRegionError\<lparr>RegionNotFound := True\<rparr>"



text \<open>The client after one successful GetStore of store 1, and after one more of store 2.\<close>

definition clientAfter1 :: "script pdClient" where
  "clientAfter1 =
     \<lparr>storeCache = [1 \<mapsto> Some (storeAt 1)], tlsConf = None,
      world = \<lparr>answers = [], lookups = []\<rparr>, trace = [PD_GetStore 1]\<rparr>"

definition clientAfter2 :: "script pdClient" where
  "clientAfter2 =
     \<lparr>storeCache = [1 \<mapsto> Some (storeAt 1), 2 \<mapsto> Some (storeAt 2)], tlsConf = None,
      world = \<lparr>answers = [], lookups = []\<rparr>, trace = [PD_GetStore 1, PD_GetStore 2]\<rparr>"

text \<open>
  The state in which the loop starts for region 7 in a world \<open>w\<close>, the client after the first
  attempt's call (store 1 resolved and dialled, the request sent to peer 11) when that left
  the world \<open>w\<close>, and the same client after one more region lookup.
\<close>

definition startState :: "'w \<Rightarrow> 'w loop_state" where
  "startState w = \<lparr>cl = newClient w, callerRegionInfo = infoR, rebound = None, splitErrors = []\<rparr>"

definition clientAfterCall :: "'w \<Rightarrow> 'w pdClient" where
  "clientAfterCall w =
     \<lparr>storeCache = [1 \<mapsto> Some (storeAt 1)], tlsConf = None, world = w,
      trace = [PD_GetStore 1, GRPC_Dial ''tikv-1'' WithInsecure,
               TiKV_SplitRegion ''tikv-1'' WithInsecure (batchRequest infoR peerA [''m''])]\<rparr>"

definition clientAfterLookup :: "'w \<Rightarrow> 'w pdClient" where
  "clientAfterLookup w =
     (clientAfterCall w)\<lparr>trace := trace (clientAfterCall w) @ [PD_GetRegionByID 7]\<rparr>"

text \<open>
  A leader with identifier zero on store 2; the empty leader a region scan may return; region
  7 with a smaller epoch; and the answer to a split that also fills the deprecated fields.
\<close>

definition zeroIdLeader :: peer where
  "zeroIdLeader = \<lparr>Peer_Id = 0, Peer_StoreId = 2\<rparr>"

definition emptyLeader :: peer where
  "emptyLeader = \<lparr>Peer_Id = 0, Peer_StoreId = 0\<rparr>"

definition regionStale :: region where
  "regionStale = regionR\<lparr>Region_RegionEpoch := Some \<lparr>ConfVer = 4, Version = 8\<rparr>\<rparr>"

definition splitDoneLegacy :: split_response where
  "splitDoneLegacy = splitDone\<lparr>Left := Some regionLeft, Right := Some regionRight\<rparr>"

text \<open>
  The client after the call of the single-key SplitRegion for key m to peer \<open>p\<close>, whose
  store \<open>storeID\<close> has the given address, when that left the world \<open>w\<close>.
\<close>

definition clientAfterSingle :: "'w \<Rightarrow> peer \<Rightarrow> u64 \<Rightarrow> string \<Rightarrow> 'w pdClient" where
  "clientAfterSingle w p storeID address =
     \<lparr>storeCache = [storeID \<mapsto> Some (storeAt storeID)], tlsConf = None, world = w,
      trace = [PD_GetStore storeID, GRPC_Dial address WithInsecure,
               TiKV_SplitRegion address WithInsecure
                 \<lparr>req_RegionId = 7, req_RegionEpoch = Some \<lparr>ConfVer = 5, Version = 9\<rparr>,
                  req_Peer = Some p, SplitKey = ''m'', SplitKeys = []\<rparr>]\<rparr>"

section \<open>Facts about the trace and the frame of each operation\<close>

lemma stateOf_simps [simp]: "stateOf (Retry st) = st" "stateOf (Stop r st) = st"
  by (simp_all add: stateOf_def)

lemma splitCalls_append: "splitCalls (xs @ ys) = splitCalls xs @ splitCalls ys"
  by (induction xs rule: splitCalls.induct) simp_all

lemma regionLookups_append: "regionLookups (xs @ ys) = regionLookups xs @ regionLookups ys"
  by (induction xs rule: regionLookups.induct) simp_all

lemma storeFetches_append: "storeFetches (xs @ ys) = storeFetches xs @ storeFetches ys"
  by (induction xs rule: storeFetches.induct) simp_all

lemma GetStore_keeps:
  "GetStore e c sid = (r, c') \<Longrightarrow> storeCache c k = Some v \<Longrightarrow> storeCache c' k = Some v"
  by (auto simp: GetStore_def split: option.splits prod.splits sum.splits)

lemma GetStore_trace:
  "GetStore e c sid = (r, c') \<Longrightarrow>
     splitCalls (trace c') = splitCalls (trace c) \<and> regionLookups (trace c') = regionLookups (trace c)
     \<and> tlsConf c' = tlsConf c \<and> (\<forall>sto. r = Inr sto \<longrightarrow> storeCache c' sid = Some sto)"
  by (auto simp: GetStore_def splitCalls_append regionLookups_append
           split: option.splits prod.splits sum.splits)

lemma Dial_trace:
  "Dial e c t opt = (r, c') \<Longrightarrow>
     splitCalls (trace c') = splitCalls (trace c) \<and> regionLookups (trace c') = regionLookups (trace c)
     \<and> tlsConf c' = tlsConf c \<and> storeCache c' = storeCache c"
  by (auto simp: Dial_def splitCalls_append regionLookups_append split: prod.splits)

lemma GetRegionByID_trace:
  "GetRegionByID e c rid = (r, c') \<Longrightarrow>
     splitCalls (trace c') = splitCalls (trace c) \<and> storeCache c' = storeCache c \<and> tlsConf c' = tlsConf c
     \<and> regionLookups (trace c') = regionLookups (trace c) @ [rid]"
  by (auto simp: GetRegionByID_def splitCalls_append regionLookups_append
           split: option.splits prod.splits sum.splits)

lemma splitRegionWithFailpoint_trace:
  "splitRegionWithFailpoint e c ri p t opt keys = (r, c') \<Longrightarrow>
     splitCalls (trace c') = splitCalls (trace c) @ [(t, batchRequest ri p keys)]
     \<and> regionLookups (trace c') = regionLookups (trace c)
     \<and> tlsConf c' = tlsConf c \<and> storeCache c' = storeCache c"
  by (auto simp: splitRegionWithFailpoint_def Let_def batchRequest_def splitCalls_append
                 regionLookups_append
           split: option.splits prod.splits if_splits)

lemma issue_trace:
  assumes "issue e keys st = (r, c')"
  shows "regionLookups (trace c') = regionLookups (trace (cl st))"
    and "tlsConf c' = tlsConf (cl st)"
    and "\<exists>calls. splitCalls (trace c') = splitCalls (trace (cl st)) @ calls \<and> length calls \<le> 1
           \<and> (\<forall>x\<in>set calls. \<exists>p. selectPeer (working st) = Some p
                  \<and> snd x = batchRequest (working st) p keys
                  \<and> (\<exists>sto. storeCache c' (Peer_StoreId p) = Some sto \<and> fst x = GetAddress sto))"
    and "\<And>resp. r = Inr resp \<Longrightarrow> \<exists>p sto. selectPeer (working st) = Some p
           \<and> storeCache c' (Peer_StoreId p) = Some sto
           \<and> splitCalls (trace c') =
               splitCalls (trace (cl st)) @ [(GetAddress sto, batchRequest (working st) p keys)]"
  using assms
  by (auto simp: issue_def Let_def split: option.splits prod.splits sum.splits
      dest!: Dial_trace splitRegionWithFailpoint_trace GetStore_trace)

lemma issue_cache:
  "issue e keys st = (r, c') \<Longrightarrow> storeCache (cl st) k = Some v \<Longrightarrow> storeCache c' k = Some v"
  by (auto simp: issue_def Let_def GetStore_def split: option.splits prod.splits sum.splits
      dest!: Dial_trace splitRegionWithFailpoint_trace)

lemma setLeader_fields [simp]:
  "cl (setLeader st l) = cl st"
  "splitErrors (setLeader st l) = splitErrors st"
  "Region (callerRegionInfo (setLeader st l)) = Region (callerRegionInfo st)"
  "working (setLeader st l) = (working st)\<lparr>Leader := Some l\<rparr>"
  by (simp_all add: setLeader_def working_def split: option.splits)

lemma onRegionError_frame:
  "splitCalls (trace (cl (stateOf (onRegionError e st re)))) = splitCalls (trace (cl st))"
  "storeCache (cl (stateOf (onRegionError e st re))) = storeCache (cl st)"
  "tlsConf (cl (stateOf (onRegionError e st re))) = tlsConf (cl st)"
  "Region (callerRegionInfo (stateOf (onRegionError e st re))) = Region (callerRegionInfo st)"
  by (auto simp: onRegionError_def Let_def split: option.splits prod.splits sum.splits
      dest!: GetRegionByID_trace)

lemma attempt_frame:
  "\<exists>calls. splitCalls (trace (cl (stateOf (attempt e keys st)))) = splitCalls (trace (cl st)) @ calls
       \<and> length calls \<le> 1"
  "storeCache (cl st) k = Some v \<Longrightarrow> storeCache (cl (stateOf (attempt e keys st))) k = Some v"
  "tlsConf (cl (stateOf (attempt e keys st))) = tlsConf (cl st)"
  "Region (callerRegionInfo (stateOf (attempt e keys st))) = Region (callerRegionInfo st)"
proof -
  obtain r c' where i: "issue e keys st = (r, c')" by (cases "issue e keys st")
  from issue_trace(3)[OF i] obtain calls where
    c: "splitCalls (trace c') = splitCalls (trace (cl st)) @ calls" "length calls \<le> 1" by blast
  show "\<exists>calls. splitCalls (trace (cl (stateOf (attempt e keys st)))) = splitCalls (trace (cl st)) @ calls
       \<and> length calls \<le> 1"
    using i c by (auto simp: attempt_def onRegionError_frame split: sum.splits option.splits)
  show "storeCache (cl st) k = Some v \<Longrightarrow> storeCache (cl (stateOf (attempt e keys st))) k = Some v"
    using i issue_cache[OF i] by (auto simp: attempt_def onRegionError_frame split: sum.splits option.splits)
  show "tlsConf (cl (stateOf (attempt e keys st))) = tlsConf (cl st)"
    using i issue_trace(2)[OF i] by (auto simp: attempt_def onRegionError_frame split: sum.splits option.splits)
  show "Region (callerRegionInfo (stateOf (attempt e keys st))) = Region (callerRegionInfo st)"
    using i by (auto simp: attempt_def onRegionError_frame split: sum.splits option.splits)
qed

section \<open>Unfolding the retry loop\<close>

lemma loop_Retry:
  "i < splitRegionMaxRetryTime \<Longrightarrow> attempt e keys st = Retry st' \<Longrightarrow>
   sendSplitRegionRequest_loop e keys i st = sendSplitRegionRequest_loop e keys (i + 1) st'"
  by (subst sendSplitRegionRequest_loop.simps) simp

lemma loop_Stop:
  "i < splitRegionMaxRetryTime \<Longrightarrow> attempt e keys st = Stop r st' \<Longrightarrow>
   sendSplitRegionRequest_loop e keys i st = (r, st')"
  by (subst sendSplitRegionRequest_loop.simps) simp

lemma loop_done:
  "\<not> i < splitRegionMaxRetryTime \<Longrightarrow>
   sendSplitRegionRequest_loop e keys i st = (Error (splitErrors st), st)"
  by (subst sendSplitRegionRequest_loop.simps) simp

text \<open>A relation that every pass of the body respects holds across the whole loop.\<close>

lemma loop_inv:
  assumes step: "\<And>st. R st (stateOf (attempt e keys st))"
    and refl: "\<And>st. R st st"
    and trans: "\<And>a b c. R a b \<Longrightarrow> R b c \<Longrightarrow> R a c"
  shows "R st (snd (sendSplitRegionRequest_loop e keys i st))"
proof (induction "splitRegionMaxRetryTime - i" arbitrary: i st)
  case 0
  then have "\<not> i < splitRegionMaxRetryTime" by simp
  then show ?case by (simp add: loop_done refl)
next
  case (Suc n)
  then have lt: "i < splitRegionMaxRetryTime" and n: "n = splitRegionMaxRetryTime - (i + 1)"
    by simp_all
  show ?case
  proof (cases "attempt e keys st")
    case (Retry st')
    have "R st st'" using step[of st] Retry by simp
    moreover have "R st' (snd (sendSplitRegionRequest_loop e keys (i + 1) st'))"
      using Suc.hyps(1)[OF n] .
    ultimately show ?thesis unfolding loop_Retry[OF lt Retry] by (rule trans)
  next
    case (Stop r st')
    then show ?thesis using step[of st] unfolding loop_Stop[OF lt Stop] by simp
  qed
qed

lemma loop_cache:
  "storeCache (cl st) k = Some v \<longrightarrow>
   storeCache (cl (snd (sendSplitRegionRequest_loop e keys i st))) k = Some v"
proof (rule loop_inv[where R = "\<lambda>a b. storeCache (cl a) k = Some v \<longrightarrow> storeCache (cl b) k = Some v"])
  show "\<And>st. storeCache (cl st) k = Some v \<longrightarrow> storeCache (cl (stateOf (attempt e keys st))) k = Some v"
    using attempt_frame(2) by blast
qed blast+



section \<open>The store cache over the lifetime of a client\<close>

lemma issueSingle_cache:
  "issueSingle e c regionInfo key = (r, c') \<Longrightarrow> storeCache c k = Some v \<Longrightarrow> storeCache c' k = Some v"
  by (auto simp: issueSingle_def Let_def GetStore_def
           split: option.splits prod.splits sum.splits
           dest!: Dial_trace)


lemma SplitRegion_cache:
  "SplitRegion e c ri key = (r, c') \<Longrightarrow> storeCache c k = Some v \<Longrightarrow> storeCache c' k = Some v"
  by (auto simp: SplitRegion_def split: option.splits prod.splits sum.splits
           dest: issueSingle_cache)

lemma sendSplitRegionRequest_cache:
  "sendSplitRegionRequest e c ri keys = (r, c', ri') \<Longrightarrow> storeCache c k = Some v
     \<Longrightarrow> storeCache c' k = Some v"
  using loop_cache[of "\<lparr>cl = c, callerRegionInfo = ri, rebound = None, splitErrors = []\<rparr>" k v e keys 0]
  by (auto simp: sendSplitRegionRequest_def split: prod.splits)

lemma BatchSplitRegionsWithOrigin_cache:
  "BatchSplitRegionsWithOrigin e c ri keys = (r, c', ri') \<Longrightarrow> storeCache c k = Some v
     \<Longrightarrow> storeCache c' k = Some v"
  by (auto simp: BatchSplitRegionsWithOrigin_def split: prod.splits result.splits
      dest: sendSplitRegionRequest_cache)

lemma BatchSplitRegions_cache:
  "BatchSplitRegions e c ri keys = (r, c', ri') \<Longrightarrow> storeCache c k = Some v
     \<Longrightarrow> storeCache c' k = Some v"
  by (auto simp: BatchSplitRegions_def split: prod.splits result.splits
      dest: BatchSplitRegionsWithOrigin_cache)

lemma lifetime_cache:
  "lifetime e c c' \<Longrightarrow> storeCache c k = Some v \<Longrightarrow> storeCache c' k = Some v"
proof (induction rule: lifetime.induct)
  case (lifetime_start c)
  then show ?case by simp
next
  case (lifetime_GetStore c c1 storeID ra c2)
  then show ?case by (blast dest: GetStore_keeps)
next
  case (lifetime_GetRegionByID c c1 regionID rb c2)
  then show ?case by (auto dest!: GetRegionByID_trace)
next
  case (lifetime_SplitRegion c c1 regionInfo key rc c2)
  then show ?case by (blast dest: SplitRegion_cache)
next
  case (lifetime_BatchSplitRegionsWithOrigin c c1 regionInfo keys rd c2 regionInfo')
  then show ?case by (blast dest: BatchSplitRegionsWithOrigin_cache)
next
  case (lifetime_BatchSplitRegions c c1 regionInfo keys re c2 regionInfo')
  then show ?case by (blast dest: BatchSplitRegions_cache)
qed

text \<open>
  C9. If GetStore succeeds for a store identifier, then at any later point of the client's
  life (after any sequence of its operations) GetStore for the same identifier returns the
  identical store and leaves the client exactly as it was: nothing is fetched from PD, the
  trace does not grow, and no operation ever removed the cached entry.
\<close>

theorem GetStore_second_call_is_cached:
  assumes first: "GetStore e c storeID = (Inr sto, c1)"
    and later: "lifetime e c1 c2"
  shows "GetStore e c2 storeID = (Inr sto, c2)
         \<and> storeFetches (trace (snd (GetStore e c2 storeID))) = storeFetches (trace c2)"
proof -
  have "storeCache c1 storeID = Some sto"
    using first by (auto simp: GetStore_def split: option.splits prod.splits sum.splits)
  then have "storeCache c2 storeID = Some sto"
    using later by (rule lifetime_cache[rotated])
  then show ?thesis by (simp add: GetStore_def)
qed

theorem GetStore_second_call_is_cached_witness:
  "GetStore scripted (newClient \<lparr>answers = [], lookups = []\<rparr>) 1 = (Inr (Some (storeAt 1)), clientAfter1)
   \<and> lifetime scripted clientAfter1 clientAfter2
   \<and> GetStore scripted clientAfter2 1 = (Inr (Some (storeAt 1)), clientAfter2)"
proof -
  have first: "GetStore scripted (newClient \<lparr>answers = [], lookups = []\<rparr>) 1
                 = (Inr (Some (storeAt 1)), clientAfter1)"
    by (simp add: GetStore_def scripted_def newClient_def clientAfter1_def)
  have "GetStore scripted clientAfter1 2 = (Inr (Some (storeAt 2)), clientAfter2)"
    by (simp add: GetStore_def scripted_def clientAfter1_def clientAfter2_def)
  then have later: "lifetime scripted clientAfter1 clientAfter2"
    by (rule lifetime_GetStore[OF lifetime_start])
  from GetStore_second_call_is_cached[OF first later, THEN conjunct1] first later
  show ?thesis by simp
qed

section \<open>One pass of the loop body, by kind of answer\<close>

lemma working_frame [simp]:
  "working (st\<lparr>cl := c\<rparr>) = working st"
  "working (st\<lparr>splitErrors := es\<rparr>) = working st"
  by (simp_all add: working_def split: option.splits)

lemma attempt_region_error:
  "issue e keys st = (Inr resp, c') \<Longrightarrow> RegionError resp = Some re \<Longrightarrow>
   attempt e keys st = onRegionError e (st\<lparr>cl := c'\<rparr>) re"
  by (simp add: attempt_def)

lemma attempt_other_error:
  "issue e keys st = (Inr resp, c') \<Longrightarrow> RegionError resp = Some re \<Longrightarrow> NotLeader re = None
     \<Longrightarrow> \<not> ServerIsBusy re \<Longrightarrow> \<not> StaleCommand re \<Longrightarrow>
   attempt e keys st =
     Stop (Error (splitErrors st @ [ErrRestoreSplitFailed (Some re)]))
          (st\<lparr>cl := c', splitErrors := splitErrors st @ [ErrRestoreSplitFailed (Some re)]\<rparr>)"
  by (simp add: attempt_region_error onRegionError_def multierr_Append_def)

lemma attempt_busy_or_stale:
  "issue e keys st = (Inr resp, c') \<Longrightarrow> RegionError resp = Some re \<Longrightarrow> NotLeader re = None
     \<Longrightarrow> ServerIsBusy re \<or> StaleCommand re \<Longrightarrow>
   attempt e keys st =
     Retry (st\<lparr>cl := c', splitErrors := splitErrors st @ [ErrRestoreSplitFailed (Some re)]\<rparr>)"
  by (auto simp: attempt_region_error onRegionError_def multierr_Append_def)

lemma attempt_not_leader_hint:
  "issue e keys st = (Inr resp, c') \<Longrightarrow> RegionError resp = Some re \<Longrightarrow> NotLeader re = Some nl
     \<Longrightarrow> NotLeader_Leader nl = Some l \<Longrightarrow>
   attempt e keys st =
     Retry (setLeader (st\<lparr>cl := c', splitErrors := splitErrors st @ [ErrRestoreSplitFailed (Some re)]\<rparr>) l)"
  by (simp add: attempt_region_error onRegionError_def multierr_Append_def)


lemma selectPeer_cases:
  "selectPeer regionInfo =
     (if (\<exists>l. Leader regionInfo = Some l \<and> Peer_Id l \<noteq> 0) then Leader regionInfo
      else (case Region_Peers (Region regionInfo) of [] \<Rightarrow> None | p # ps \<Rightarrow> Some p))"
  by (auto simp: selectPeer_def split: option.splits)

text \<open>
  The peer that the batch path addresses (lines 251-262): the leader when it is set and its
  identifier is not zero, else the first peer; with neither, the attempt returns the no-peer
  error appended to the errors so far, and makes no call.
\<close>

lemma batch_path_addresses_selected_peer:
  "selectPeer regionInfo =
     (if (\<exists>l. Leader regionInfo = Some l \<and> Peer_Id l \<noteq> 0) then Leader regionInfo
      else (case Region_Peers (Region regionInfo) of [] \<Rightarrow> None | p # ps \<Rightarrow> Some p))"
  "selectPeer (working st) = None \<Longrightarrow>
     attempt e keys st =
       Stop (Error (splitErrors st @ [ErrRestoreNoPeer (Some (Region_Id (Region (working st))))])) st"
  "issue e keys st = (r, c') \<Longrightarrow> (t, req) \<in> set (splitCalls (trace c')) \<Longrightarrow>
     (t, req) \<notin> set (splitCalls (trace (cl st))) \<Longrightarrow> req_Peer req = selectPeer (working st)"
proof -
  show "selectPeer regionInfo =
     (if (\<exists>l. Leader regionInfo = Some l \<and> Peer_Id l \<noteq> 0) then Leader regionInfo
      else (case Region_Peers (Region regionInfo) of [] \<Rightarrow> None | p # ps \<Rightarrow> Some p))"
    by (rule selectPeer_cases)
  show "selectPeer (working st) = None \<Longrightarrow>
     attempt e keys st =
       Stop (Error (splitErrors st @ [ErrRestoreNoPeer (Some (Region_Id (Region (working st))))])) st"
    by (simp add: attempt_def issue_def multierr_Append_def)
  show "req_Peer req = selectPeer (working st)"
    if i: "issue e keys st = (r, c')" and m: "(t, req) \<in> set (splitCalls (trace c'))"
      and n: "(t, req) \<notin> set (splitCalls (trace (cl st)))"
  proof -
    from issue_trace(3)[OF i] obtain calls where
      k: "splitCalls (trace c') = splitCalls (trace (cl st)) @ calls"
         "\<forall>x\<in>set calls. \<exists>p. selectPeer (working st) = Some p
                  \<and> snd x = batchRequest (working st) p keys
                  \<and> (\<exists>sto. storeCache c' (Peer_StoreId p) = Some sto \<and> fst x = GetAddress sto)"
      by blast
    from m n k(1) have "(t, req) \<in> set calls" by simp
    with k(2) obtain p where "selectPeer (working st) = Some p" "req = batchRequest (working st) p keys"
      by fastforce
    then show ?thesis by (simp add: batchRequest_def)
  qed
qed

section \<open>The claims about a single attempt\<close>

text \<open>
  C5. When the response of an attempt carries a region error that is neither NotLeader nor
  ServerIsBusy nor StaleCommand (region-not-found, epoch-not-match, key-not-in-region, or
  nothing recognised at all), the attempt returns: the result is the errors accumulated so
  far in this call with this failure appended, the loop makes no further attempt whatever
  its counter, exactly one split call was made by this attempt and none follows it (the
  client returned is the client right after that call), and the locator is not asked.
\<close>

theorem other_region_error_returns_at_once:
  assumes sent: "issue e keys st = (Inr resp, c')"
    and err: "RegionError resp = Some re"
    and other: "NotLeader re = None" "\<not> ServerIsBusy re" "\<not> StaleCommand re"
  shows "attempt e keys st =
           Stop (Error (splitErrors st @ [ErrRestoreSplitFailed (Some re)]))
                (st\<lparr>cl := c', splitErrors := splitErrors st @ [ErrRestoreSplitFailed (Some re)]\<rparr>)
         \<and> (i < splitRegionMaxRetryTime \<longrightarrow>
              sendSplitRegionRequest_loop e keys i st =
                (Error (splitErrors st @ [ErrRestoreSplitFailed (Some re)]),
                 st\<lparr>cl := c', splitErrors := splitErrors st @ [ErrRestoreSplitFailed (Some re)]\<rparr>))
         \<and> length (splitCalls (trace c')) = length (splitCalls (trace (cl st))) + 1
         \<and> regionLookups (trace c') = regionLookups (trace (cl st))"
proof -
  have a: "attempt e keys st =
           Stop (Error (splitErrors st @ [ErrRestoreSplitFailed (Some re)]))
                (st\<lparr>cl := c', splitErrors := splitErrors st @ [ErrRestoreSplitFailed (Some re)]\<rparr>)"
    using attempt_other_error[OF sent err other] .
  have b: "length (splitCalls (trace c')) = length (splitCalls (trace (cl st))) + 1"
    using issue_trace(4)[OF sent refl] by auto
  show ?thesis using a b issue_trace(1)[OF sent] by (simp add: loop_Stop)
qed

text \<open>
  C6. When the response of an attempt carries a ServerIsBusy or StaleCommand region error
  (and so is not a NotLeader error, which the code looks at first), the attempt ends in a
  retry; the state handed to the next attempt differs from the state before the attempt
  only in the client (the call was made) and in the accumulated errors (this failure is
  appended): the working region info, with its region, epoch and leader, is unchanged, and
  the loop goes on with the next value of its counter.
\<close>

theorem busy_or_stale_retries_unchanged:
  assumes sent: "issue e keys st = (Inr resp, c')"
    and err: "RegionError resp = Some re"
    and kind: "NotLeader re = None" "ServerIsBusy re \<or> StaleCommand re"
  shows "attempt e keys st =
           Retry (st\<lparr>cl := c', splitErrors := splitErrors st @ [ErrRestoreSplitFailed (Some re)]\<rparr>)
         \<and> working (st\<lparr>cl := c', splitErrors := splitErrors st @ [ErrRestoreSplitFailed (Some re)]\<rparr>)
             = working st
         \<and> (i < splitRegionMaxRetryTime \<longrightarrow>
              sendSplitRegionRequest_loop e keys i st =
              sendSplitRegionRequest_loop e keys (i + 1)
                (st\<lparr>cl := c', splitErrors := splitErrors st @ [ErrRestoreSplitFailed (Some re)]\<rparr>))"
proof -
  have a: "attempt e keys st =
           Retry (st\<lparr>cl := c', splitErrors := splitErrors st @ [ErrRestoreSplitFailed (Some re)]\<rparr>)"
    using attempt_busy_or_stale[OF sent err kind] .
  show ?thesis using a by (simp add: loop_Retry)
qed

text \<open>
  C3 (amended). When the response of an attempt carries a NotLeader error with an embedded
  leader \<open>l\<close>, the attempt ends in a retry with the leader of the working region info set to
  \<open>l\<close> and nothing else of it changed; no region lookup is made (the client is the one the
  split call left), and the loop goes on with the next value of its counter. If the
  identifier of \<open>l\<close> is not zero, the next attempt chooses \<open>l\<close>: whatever that attempt's
  call yields, it makes no lookup, and every split call it makes carries \<open>l\<close> as its peer
  and goes to the address of \<open>l\<close>'s store. If the identifier of \<open>l\<close> is zero, the next
  attempt treats the leader as absent and chooses the first peer of the region (or fails
  with the no-peer error when there is none).
\<close>

theorem not_leader_with_leader_retries_on_it:
  assumes sent: "issue e keys st = (Inr resp, c')"
    and err: "RegionError resp = Some re"
    and nl: "NotLeader re = Some nl" "NotLeader_Leader nl = Some l"
  shows "attempt e keys st =
           Retry (setLeader (st\<lparr>cl := c', splitErrors := splitErrors st @ [ErrRestoreSplitFailed (Some re)]\<rparr>) l)
         \<and> working (setLeader (st\<lparr>cl := c', splitErrors := splitErrors st @ [ErrRestoreSplitFailed (Some re)]\<rparr>) l)
             = (working st)\<lparr>Leader := Some l\<rparr>
         \<and> cl (setLeader (st\<lparr>cl := c', splitErrors := splitErrors st @ [ErrRestoreSplitFailed (Some re)]\<rparr>) l) = c'
         \<and> regionLookups (trace c') = regionLookups (trace (cl st))
         \<and> (i < splitRegionMaxRetryTime \<longrightarrow>
              sendSplitRegionRequest_loop e keys i st =
              sendSplitRegionRequest_loop e keys (i + 1)
                (setLeader (st\<lparr>cl := c', splitErrors := splitErrors st @ [ErrRestoreSplitFailed (Some re)]\<rparr>) l))
         \<and> (Peer_Id l \<noteq> 0 \<longrightarrow>
              selectPeer ((working st)\<lparr>Leader := Some l\<rparr>) = Some l
              \<and> (\<forall>r c''. issue e keys
                     (setLeader (st\<lparr>cl := c', splitErrors := splitErrors st @ [ErrRestoreSplitFailed (Some re)]\<rparr>) l)
                     = (r, c'') \<longrightarrow>
                   regionLookups (trace c'') = regionLookups (trace c')
                   \<and> (\<exists>calls. splitCalls (trace c'') = splitCalls (trace c') @ calls \<and> length calls \<le> 1
                        \<and> (\<forall>x\<in>set calls. req_Peer (snd x) = Some l
                              \<and> (\<exists>sto. storeCache c'' (Peer_StoreId l) = Some sto \<and> fst x = GetAddress sto)))))
         \<and> (Peer_Id l = 0 \<longrightarrow>
              selectPeer ((working st)\<lparr>Leader := Some l\<rparr>) =
                (case Region_Peers (Region (working st)) of [] \<Rightarrow> None | p # ps \<Rightarrow> Some p))"
proof -
  let ?st' = "setLeader (st\<lparr>cl := c', splitErrors := splitErrors st @ [ErrRestoreSplitFailed (Some re)]\<rparr>) l"
  have a: "attempt e keys st = Retry ?st'"
    using attempt_not_leader_hint[OF sent err nl] .
  have w: "working ?st' = (working st)\<lparr>Leader := Some l\<rparr>"
    by simp
  have c: "cl ?st' = c'" by simp
  have sel: "Peer_Id l \<noteq> 0 \<Longrightarrow> selectPeer ((working st)\<lparr>Leader := Some l\<rparr>) = Some l"
    by (simp add: selectPeer_def)
  have sel0: "Peer_Id l = 0 \<Longrightarrow> selectPeer ((working st)\<lparr>Leader := Some l\<rparr>) =
                (case Region_Peers (Region (working st)) of [] \<Rightarrow> None | p # ps \<Rightarrow> Some p)"
    by (simp add: selectPeer_def)
  have nxt: "regionLookups (trace c'') = regionLookups (trace c')
             \<and> (\<exists>calls. splitCalls (trace c'') = splitCalls (trace c') @ calls \<and> length calls \<le> 1
                  \<and> (\<forall>x\<in>set calls. req_Peer (snd x) = Some l
                        \<and> (\<exists>sto. storeCache c'' (Peer_StoreId l) = Some sto \<and> fst x = GetAddress sto)))"
    if nz: "Peer_Id l \<noteq> 0" and i2: "issue e keys ?st' = (r, c'')" for r c''
  proof -
    from issue_trace(3)[OF i2] obtain calls where
      k: "splitCalls (trace c'') = splitCalls (trace (cl ?st')) @ calls" "length calls \<le> 1"
         "\<forall>x\<in>set calls. \<exists>p. selectPeer (working ?st') = Some p
                  \<and> snd x = batchRequest (working ?st') p keys
                  \<and> (\<exists>sto. storeCache c'' (Peer_StoreId p) = Some sto \<and> fst x = GetAddress sto)"
      by blast
    have "\<forall>x\<in>set calls. req_Peer (snd x) = Some l
             \<and> (\<exists>sto. storeCache c'' (Peer_StoreId l) = Some sto \<and> fst x = GetAddress sto)"
      using k(3) sel[OF nz] by (auto simp: w batchRequest_def)
    then show ?thesis using k(1,2) issue_trace(1)[OF i2] by (auto simp: c)
  qed
  show ?thesis
    using a w c issue_trace(1)[OF sent] sel sel0 nxt by (simp add: loop_Retry)
qed

section \<open>The retry budget\<close>












section \<open>What a successful split returns\<close>








text \<open>
  The leader of the caller's region info when the call returns, from the failures of the
  call; and the request of the successful attempt.
\<close>

lemma reresolved_simps [simp]:
  "reresolved [] = False"
  "reresolved (x # es) = ((\<exists>nl. answerOf x = Some nl \<and> NotLeader_Leader nl = None) \<or> reresolved es)"
  "reresolved (es @ ys) = (reresolved es \<or> reresolved ys)"
  by (auto simp: reresolved_def)













section \<open>The two entry points\<close>

text \<open>
  C10. BatchSplitRegions returns what BatchSplitRegionsWithOrigin returns for the same
  inputs with only the origin discarded: the same new regions on success, the same error
  (or panic) otherwise, the same client afterwards and the same effect on the caller's
  region info.
\<close>

theorem BatchSplitRegions_discards_origin_only:
  "BatchSplitRegions e c regionInfo keys =
     (case BatchSplitRegionsWithOrigin e c regionInfo keys of
        (r, c', regionInfo') \<Rightarrow> (discardOrigin r, c', regionInfo'))"
  by (auto simp: BatchSplitRegions_def discardOrigin_def split: prod.splits result.splits)

section \<open>Concrete runs\<close>

text \<open>
  The definitions of the model and of the scenarios, for evaluating a run by rewriting.
\<close>

lemmas model_defs =
  sendSplitRegionRequest_def BatchSplitRegionsWithOrigin_def BatchSplitRegions_def
  SplitRegion_def issueSingle_def singlePeer_def pickNewRegion_def attempt_def issue_def
  onRegionError_def selectPeer_def working_def setLeader_def GetStore_def Dial_def
  splitRegionWithFailpoint_def GetRegionByID_def checkRegionEpoch_def GetConfVer_def
  GetVersion_def multierr_Append_def GetAddress_def leaderOnSameStore_def errorResponse_def
  noRegionError_def splitRegionMaxRetryTime_def batchRequest_def withLeader_def Let_def

lemmas scenario_defs =
  scripted_def alwaysBusy_def flapping_def newClient_def storeAt_def peerA_def peerB_def regionR_def
  infoR_def regionLeft_def regionRight_def splitDone_def notLeaderNoHint_def notLeaderHint_def
  serverIsBusy_def regionNotFound_def startState_def clientAfterCall_def clientAfterLookup_def
  zeroIdLeader_def emptyLeader_def regionStale_def splitDoneLegacy_def clientAfterSingle_def

text \<open>
  The always-busy storage node of the specification's test: four split calls (the node
  counted four), four busy failures.
\<close>

lemma always_busy_run:
  "sendSplitRegionRequest alwaysBusy (newClient 0) infoR [''m'']
      = (Error [ErrRestoreSplitFailed (Some serverIsBusy), ErrRestoreSplitFailed (Some serverIsBusy),
                 ErrRestoreSplitFailed (Some serverIsBusy), ErrRestoreSplitFailed (Some serverIsBusy)],
         \<lparr>storeCache = [1 \<mapsto> Some (storeAt 1)], tlsConf = None, world = 4,
          trace = [PD_GetStore 1,
                   GRPC_Dial ''tikv-1'' WithInsecure,
                   TiKV_SplitRegion ''tikv-1'' WithInsecure (batchRequest infoR peerA [''m'']),
                   GRPC_Dial ''tikv-1'' WithInsecure,
                   TiKV_SplitRegion ''tikv-1'' WithInsecure (batchRequest infoR peerA [''m'']),
                   GRPC_Dial ''tikv-1'' WithInsecure,
                   TiKV_SplitRegion ''tikv-1'' WithInsecure (batchRequest infoR peerA [''m'']),
                   GRPC_Dial ''tikv-1'' WithInsecure,
                   TiKV_SplitRegion ''tikv-1'' WithInsecure (batchRequest infoR peerA [''m''])]\<rparr>,
         infoR)"
  by (simp add: model_defs scenario_defs sendSplitRegionRequest_loop.simps)



text \<open>
  C5, an instance: a single region-not-found answer ends the call at once, with one
  recorded failure and one split call.
\<close>

theorem other_region_error_returns_at_once_witness:
  "issue scripted [''m''] (startState \<lparr>answers = [Inr (errorResponse regionNotFound)], lookups = []\<rparr>)
     = (Inr (errorResponse regionNotFound), clientAfterCall \<lparr>answers = [], lookups = []\<rparr>)
   \<and> RegionError (errorResponse regionNotFound) = Some regionNotFound
   \<and> NotLeader regionNotFound = None \<and> \<not> ServerIsBusy regionNotFound \<and> \<not> StaleCommand regionNotFound
   \<and> sendSplitRegionRequest_loop scripted [''m''] 0
        (startState \<lparr>answers = [Inr (errorResponse regionNotFound)], lookups = []\<rparr>)
       = (Error [ErrRestoreSplitFailed (Some regionNotFound)],
          (startState \<lparr>answers = [Inr (errorResponse regionNotFound)], lookups = []\<rparr>)
             \<lparr>cl := clientAfterCall \<lparr>answers = [], lookups = []\<rparr>,
              splitErrors := [ErrRestoreSplitFailed (Some regionNotFound)]\<rparr>)
   \<and> length (splitCalls (trace (clientAfterCall \<lparr>answers = [], lookups = []\<rparr>))) = 1"
proof -
  let ?st = "startState \<lparr>answers = [Inr (errorResponse regionNotFound)], lookups = []\<rparr>"
  have h1: "issue scripted [''m''] ?st
     = (Inr (errorResponse regionNotFound), clientAfterCall \<lparr>answers = [], lookups = []\<rparr>)"
    by (simp add: model_defs scenario_defs)
  have h2: "RegionError (errorResponse regionNotFound) = Some regionNotFound"
    by (simp add: errorResponse_def)
  have h3: "NotLeader regionNotFound = None" "\<not> ServerIsBusy regionNotFound"
    "\<not> StaleCommand regionNotFound"
    by (simp_all add: regionNotFound_def noRegionError_def)
  have e: "splitErrors ?st = []" "length (splitCalls (trace (cl ?st))) = 0"
    by (simp_all add: startState_def newClient_def)
  from other_region_error_returns_at_once[OF h1 h2 h3, of 0] h1 h2 h3 e
  show ?thesis by (simp add: splitRegionMaxRetryTime_def)
qed

text \<open>
  C6, an instance: a busy answer leaves the working region info as the caller gave it.
\<close>

theorem busy_or_stale_retries_unchanged_witness:
  "issue scripted [''m''] (startState \<lparr>answers = [Inr (errorResponse serverIsBusy)], lookups = []\<rparr>)
     = (Inr (errorResponse serverIsBusy), clientAfterCall \<lparr>answers = [], lookups = []\<rparr>)
   \<and> RegionError (errorResponse serverIsBusy) = Some serverIsBusy
   \<and> NotLeader serverIsBusy = None \<and> (ServerIsBusy serverIsBusy \<or> StaleCommand serverIsBusy)
   \<and> attempt scripted [''m''] (startState \<lparr>answers = [Inr (errorResponse serverIsBusy)], lookups = []\<rparr>)
       = Retry ((startState \<lparr>answers = [Inr (errorResponse serverIsBusy)], lookups = []\<rparr>)
                  \<lparr>cl := clientAfterCall \<lparr>answers = [], lookups = []\<rparr>,
                   splitErrors := [ErrRestoreSplitFailed (Some serverIsBusy)]\<rparr>)
   \<and> working ((startState \<lparr>answers = [Inr (errorResponse serverIsBusy)], lookups = []\<rparr>)
                  \<lparr>cl := clientAfterCall \<lparr>answers = [], lookups = []\<rparr>,
                   splitErrors := [ErrRestoreSplitFailed (Some serverIsBusy)]\<rparr>) = infoR"
proof -
  let ?st = "startState \<lparr>answers = [Inr (errorResponse serverIsBusy)], lookups = []\<rparr>"
  have h1: "issue scripted [''m''] ?st
     = (Inr (errorResponse serverIsBusy), clientAfterCall \<lparr>answers = [], lookups = []\<rparr>)"
    by (simp add: model_defs scenario_defs)
  have h2: "RegionError (errorResponse serverIsBusy) = Some serverIsBusy"
    by (simp add: errorResponse_def)
  have h3: "NotLeader serverIsBusy = None" "ServerIsBusy serverIsBusy \<or> StaleCommand serverIsBusy"
    by (simp_all add: serverIsBusy_def noRegionError_def)
  have e: "splitErrors ?st = []" "working ?st = infoR"
    by (simp_all add: startState_def working_def)
  from busy_or_stale_retries_unchanged[OF h1 h2 h3, of 0] h1 h2 h3 e
  show ?thesis by simp
qed

text \<open>
  C3, an instance of the amended claim: NotLeader naming peer 12 on store 2 makes peer 12
  the leader, which the next attempt chooses, without any lookup.
\<close>

theorem not_leader_with_leader_retries_on_it_witness:
  "issue scripted [''m''] (startState \<lparr>answers = [Inr (errorResponse (notLeaderHint peerB))], lookups = []\<rparr>)
     = (Inr (errorResponse (notLeaderHint peerB)), clientAfterCall \<lparr>answers = [], lookups = []\<rparr>)
   \<and> RegionError (errorResponse (notLeaderHint peerB)) = Some (notLeaderHint peerB)
   \<and> NotLeader (notLeaderHint peerB) = Some \<lparr>NotLeader_RegionId = 7, NotLeader_Leader = Some peerB\<rparr>
   \<and> NotLeader_Leader \<lparr>NotLeader_RegionId = 7, NotLeader_Leader = Some peerB\<rparr> = Some peerB
   \<and> attempt scripted [''m''] (startState \<lparr>answers = [Inr (errorResponse (notLeaderHint peerB))], lookups = []\<rparr>)
       = Retry (setLeader
                  ((startState \<lparr>answers = [Inr (errorResponse (notLeaderHint peerB))], lookups = []\<rparr>)
                     \<lparr>cl := clientAfterCall \<lparr>answers = [], lookups = []\<rparr>,
                      splitErrors := [ErrRestoreSplitFailed (Some (notLeaderHint peerB))]\<rparr>) peerB)
   \<and> Peer_Id peerB \<noteq> 0
   \<and> selectPeer (infoR\<lparr>Leader := Some peerB\<rparr>) = Some peerB
   \<and> regionLookups (trace (clientAfterCall \<lparr>answers = [], lookups = []\<rparr>)) = []"
proof -
  let ?st = "startState \<lparr>answers = [Inr (errorResponse (notLeaderHint peerB))], lookups = []\<rparr>"
  have h1: "issue scripted [''m''] ?st
     = (Inr (errorResponse (notLeaderHint peerB)), clientAfterCall \<lparr>answers = [], lookups = []\<rparr>)"
    by (simp add: model_defs scenario_defs)
  have h2: "RegionError (errorResponse (notLeaderHint peerB)) = Some (notLeaderHint peerB)"
    by (simp add: errorResponse_def)
  have h3: "NotLeader (notLeaderHint peerB) = Some \<lparr>NotLeader_RegionId = 7, NotLeader_Leader = Some peerB\<rparr>"
    by (simp add: notLeaderHint_def noRegionError_def)
  have h4: "NotLeader_Leader \<lparr>NotLeader_RegionId = 7, NotLeader_Leader = Some peerB\<rparr> = Some peerB"
    by simp
  have e: "splitErrors ?st = []" "working ?st = infoR" "Peer_Id peerB \<noteq> 0"
    "regionLookups (trace (cl ?st)) = []"
    by (simp_all add: startState_def working_def peerB_def newClient_def)
  from not_leader_with_leader_retries_on_it[OF h1 h2 h3 h4, of 0] h1 h2 h3 h4 e
  show ?thesis by simp
qed

text \<open>
  C3 as stated fails for an embedded leader whose identifier is zero: the leader is stored
  (the caller's region info carries it afterwards), but the second attempt is addressed to
  peer 11, the first peer of the region, not to the embedded leader.
\<close>

theorem not_leader_with_leader_counterexample:
  "fst (sendSplitRegionRequest scripted
          (newClient \<lparr>answers = [Inr (errorResponse (notLeaderHint zeroIdLeader)), Inr splitDone],
                      lookups = []\<rparr>) infoR [''m'']) = Ok splitDone
   \<and> map snd (splitCalls (trace (fst (snd (sendSplitRegionRequest scripted
          (newClient \<lparr>answers = [Inr (errorResponse (notLeaderHint zeroIdLeader)), Inr splitDone],
                      lookups = []\<rparr>) infoR [''m'']))))) 
       = [batchRequest infoR peerA [''m''], batchRequest infoR peerA [''m'']]
   \<and> req_Peer (batchRequest infoR peerA [''m'']) = Some peerA
   \<and> peerA \<noteq> zeroIdLeader
   \<and> snd (snd (sendSplitRegionRequest scripted
          (newClient \<lparr>answers = [Inr (errorResponse (notLeaderHint zeroIdLeader)), Inr splitDone],
                      lookups = []\<rparr>) infoR [''m''])) = infoR\<lparr>Leader := Some zeroIdLeader\<rparr>"
  by (simp add: model_defs scenario_defs sendSplitRegionRequest_loop.simps)





text \<open>
  C4, the failing input. The storage node answers NotLeader without a leader; the locator
  returns region 7 with the same epoch (so the epoch check accepts it) and no leader. The
  claim says the working region info is replaced and the attempt retried; the code reads
  \<open>newRegionInfo.Leader.Id\<close> for a log line first (line 299) and panics, although the storage
  node would have answered the retry with success. With a leader in the lookup result, the
  same run is retried on that leader and succeeds.
\<close>

theorem leaderless_lookup_panics:
  "sendSplitRegionRequest scripted
     (newClient \<lparr>answers = [Inr (errorResponse notLeaderNoHint), Inr splitDone],
                 lookups = [Inr (Some \<lparr>Meta = regionR, pd_Leader = None\<rparr>)]\<rparr>) infoR [''m'']
     = (Panic, clientAfterLookup \<lparr>answers = [Inr splitDone], lookups = []\<rparr>, infoR)
   \<and> checkRegionEpoch \<lparr>Region = regionR, Leader = None\<rparr> infoR
   \<and> fst (BatchSplitRegionsWithOrigin scripted
     (newClient \<lparr>answers = [Inr (errorResponse notLeaderNoHint), Inr splitDone],
                 lookups = [Inr (Some \<lparr>Meta = regionR, pd_Leader = None\<rparr>)]\<rparr>) infoR [''m'']) = Panic
   \<and> sendSplitRegionRequest scripted
     (newClient \<lparr>answers = [Inr (errorResponse notLeaderNoHint), Inr splitDone],
                 lookups = [Inr (Some \<lparr>Meta = regionR, pd_Leader = Some peerB\<rparr>)]\<rparr>) infoR [''m'']
     = (Ok splitDone,
        \<lparr>storeCache = [1 \<mapsto> Some (storeAt 1), 2 \<mapsto> Some (storeAt 2)], tlsConf = None,
         world = \<lparr>answers = [], lookups = []\<rparr>,
         trace = trace (clientAfterLookup \<lparr>answers = [], lookups = []\<rparr>) @
                 [PD_GetStore 2, GRPC_Dial ''tikv-n'' WithInsecure,
                  TiKV_SplitRegion ''tikv-n'' WithInsecure (batchRequest infoR peerB [''m''])]\<rparr>,
        infoR)"
  by (simp add: model_defs scenario_defs sendSplitRegionRequest_loop.simps)

text \<open>
  C7, the failing input. The region info carries the empty leader that a region scan may
  return (identifier zero). The claim says a zero identifier is treated as absent and the
  first peer is addressed; sendSplitRegionRequest does so (peer 11), but the single-key
  SplitRegion tests the leader against nil only (line 137) and addresses the empty leader,
  on store 0.
\<close>

theorem single_split_addresses_zero_id_leader:
  "SplitRegion scripted (newClient \<lparr>answers = [Inr splitDone], lookups = []\<rparr>)
       (infoR\<lparr>Leader := Some emptyLeader\<rparr>) ''m''
     = (Ok \<lparr>Region = regionLeft, Leader = None\<rparr>,
        clientAfterSingle \<lparr>answers = [], lookups = []\<rparr> emptyLeader 0 ''tikv-n'')
   \<and> singlePeer (infoR\<lparr>Leader := Some emptyLeader\<rparr>) = Some emptyLeader
   \<and> Peer_Id emptyLeader = 0
   \<and> Region_Peers (Region (infoR\<lparr>Leader := Some emptyLeader\<rparr>)) = [peerA, peerB]
   \<and> selectPeer (infoR\<lparr>Leader := Some emptyLeader\<rparr>) = Some peerA
   \<and> map snd (splitCalls (trace (fst (snd (sendSplitRegionRequest scripted
        (newClient \<lparr>answers = [Inr splitDone], lookups = []\<rparr>)
        (infoR\<lparr>Leader := Some emptyLeader\<rparr>) [''m''])))))
      = [batchRequest infoR peerA [''m'']]"
  by (simp add: model_defs scenario_defs sendSplitRegionRequest_loop.simps)

end
